theory Spec2Isabelle
  imports Main "HOL-Library.Sublist"
begin

section \<open>Python values, errors and string primitives\<close>

text \<open>
  The generator \<^verbatim>\<open>generate_slurm_script.py\<close> is a pipeline of string-building
  functions over four frozen dataclasses. Python strings are modelled as \<^typ>\<open>string\<close>,
  Python integers as \<^typ>\<open>int\<close>. Every exception the source can raise is a
  constructor of \<open>py_error\<close>, and a function that can raise returns
  \<open>py_error + 'a\<close> with \<open>Inl\<close> for the exception.
\<close>

datatype py_error =
    IndexError
  | ValueError string
  | UnboundLocalError
  | ZeroDivisionError

definition bind_result :: "py_error + 'a \<Rightarrow> ('a \<Rightarrow> py_error + 'b) \<Rightarrow> py_error + 'b" where
  "bind_result r f = (case r of Inl e \<Rightarrow> Inl e | Inr v \<Rightarrow> f v)"

text \<open>Reading a local variable that may not have been assigned yet.\<close>

definition read_local :: "'a option \<Rightarrow> py_error + 'a" where
  "read_local v = (case v of None \<Rightarrow> Inl UnboundLocalError | Some a \<Rightarrow> Inr a)"

text \<open>\<^verbatim>\<open>str(n)\<close> for an integer: decimal digits, with a leading minus sign.\<close>

definition digit_char :: "nat \<Rightarrow> char" where
  "digit_char d = ''0123456789'' ! d"

fun str_nat :: "nat \<Rightarrow> string" where
  "str_nat n = (if n < 10 then [digit_char n] else str_nat (n div 10) @ [digit_char (n mod 10)])"

declare str_nat.simps [simp del]

definition str_int :: "int \<Rightarrow> string" where
  "str_int i = (if i < 0 then CHR ''-'' # str_nat (nat (- i)) else str_nat (nat i))"

text \<open>
  The format specification \<^verbatim>\<open>f'{t:02}'\<close>: minimum width two, padded with zeros
  after the sign. Only a single digit is shorter than two characters.
\<close>

definition format_02 :: "int \<Rightarrow> string" where
  "format_02 t = (let s = str_int t in if length s < 2 then CHR ''0'' # s else s)"

definition int_of_bool :: "bool \<Rightarrow> int" where
  "int_of_bool b = (if b then 1 else 0)"

text \<open>\<^verbatim>\<open>sep.join(xs)\<close>.\<close>

fun join :: "string \<Rightarrow> string list \<Rightarrow> string" where
  "join sep [] = []"
| "join sep [x] = x"
| "join sep (x # y # ys) = x @ sep @ join sep (y # ys)"

text \<open>
  \<^verbatim>\<open>s.replace(old, new)\<close>: the non-overlapping occurrences of \<open>old\<close> are replaced
  from left to right. With an empty \<open>old\<close> Python inserts \<open>new\<close> before every
  character and at the end.
\<close>

function replace_scan :: "string \<Rightarrow> string \<Rightarrow> string \<Rightarrow> string" where
  "replace_scan old new [] = []"
| "replace_scan old new (c # cs) =
     (if old \<noteq> [] \<and> take (length old) (c # cs) = old
      then new @ replace_scan old new (drop (length old) (c # cs))
      else c # replace_scan old new cs)"
  by pat_completeness auto
termination
  by (relation "measure (\<lambda>(old, new, s). length s)") auto

definition replace :: "string \<Rightarrow> string \<Rightarrow> string \<Rightarrow> string" where
  "replace s old new =
     (if old = [] then new @ concat (map (\<lambda>c. c # new) s) else replace_scan old new s)"

definition endswith :: "string \<Rightarrow> string \<Rightarrow> bool" where
  "endswith s suf = suffix suf s"

section \<open>The configuration records\<close>

text \<open>
  The four dataclasses. Field defaults only matter where the code reads them back
  (\<^verbatim>\<open>field.default\<close> in \<^verbatim>\<open>SlurmHeader.__str__\<close>); they are given by
  \<open>field_default\<close> below. Three classes have a field \<^verbatim>\<open>args\<close>; it is written
  with its record name, as in \<open>SrunCall.args\<close>.
\<close>

record SlurmHeader =
  account :: string
  partition :: string
  qos :: string
  job_name :: string
  "output" :: string
  error :: string
  nodes :: int
  ntasks_per_node :: int
  time :: "int \<times> int \<times> int"
  switches :: int
  distribution :: string
  hint :: string
  exclusive :: bool
  requeue :: bool
  mail_user :: string
  mail_type :: string
  bash_path :: string
  job_directory :: string

record PythonCall =
  path :: string
  args :: string
  script_name :: string
  script_dir :: string
  script_args :: string

record SrunCall =
  l3cores :: int
  l3size :: int
  nodesize :: int
  args :: string
  xthi :: bool

record SingularityCall =
  container :: string
  args :: string
  bind_from :: string
  bind_to :: string
  home :: string
  directory :: string
  setup_file :: string

section \<open>SlurmHeader.__str__\<close>

text \<open>
  The class attributes \<^verbatim>\<open>optionals\<close> and \<^verbatim>\<open>flags\<close> are tuples of attribute
  names. The names that occur there form the type \<open>attr\<close>; \<open>attr_name\<close> is the Python
  string, \<open>getattr\<close> reads the attribute, \<open>field_default\<close> is the default declared
  for the field in the class body.
\<close>

datatype attr = Switches | Distribution | Hint | Mail_user | Mail_type | Exclusive | Requeue

datatype py_value = PyInt int | PyStr string | PyBool bool

fun attr_name :: "attr \<Rightarrow> string" where
  "attr_name Switches = ''switches''"
| "attr_name Distribution = ''distribution''"
| "attr_name Hint = ''hint''"
| "attr_name Mail_user = ''mail_user''"
| "attr_name Mail_type = ''mail_type''"
| "attr_name Exclusive = ''exclusive''"
| "attr_name Requeue = ''requeue''"

definition optionals :: "attr list" where
  "optionals = [Switches, Distribution, Hint, Mail_user, Mail_type]"

definition flags :: "attr list" where
  "flags = [Exclusive, Requeue]"

fun getattr :: "SlurmHeader \<Rightarrow> attr \<Rightarrow> py_value" where
  "getattr self Switches = PyInt (switches self)"
| "getattr self Distribution = PyStr (distribution self)"
| "getattr self Hint = PyStr (hint self)"
| "getattr self Mail_user = PyStr (mail_user self)"
| "getattr self Mail_type = PyStr (mail_type self)"
| "getattr self Exclusive = PyBool (exclusive self)"
| "getattr self Requeue = PyBool (requeue self)"

fun field_default :: "attr \<Rightarrow> py_value" where
  "field_default Switches = PyInt (- 1)"
| "field_default Distribution = PyStr []"
| "field_default Hint = PyStr []"
| "field_default Mail_user = PyStr []"
| "field_default Mail_type = PyStr []"
| "field_default Exclusive = PyBool False"
| "field_default Requeue = PyBool False"

text \<open>How an f-string renders a value, and the truth value \<^verbatim>\<open>if\<close> tests.\<close>

fun str_value :: "py_value \<Rightarrow> string" where
  "str_value (PyInt i) = str_int i"
| "str_value (PyStr s) = s"
| "str_value (PyBool b) = (if b then ''True'' else ''False'')"

fun truthy :: "py_value \<Rightarrow> bool" where
  "truthy (PyInt i) = (i \<noteq> 0)"
| "truthy (PyStr s) = (s \<noteq> [])"
| "truthy (PyBool b) = b"

text \<open>The mandatory block: the first f-string of \<^verbatim>\<open>__str__\<close>.\<close>

definition time_list :: "int \<times> int \<times> int \<Rightarrow> int list" where
  "time_list t = (case t of (h, m, s) \<Rightarrow> [h, m, s])"

definition mandatory_header :: "SlurmHeader \<Rightarrow> string \<Rightarrow> string" where
  "mandatory_header self job_dir =
     ''#'' @ bash_path self @ ''\<newline>''
   @ ''#\<newline>''
   @ ''#SBATCH --account='' @ account self @ ''\<newline>''
   @ ''#SBATCH --partition='' @ partition self @ ''\<newline>''
   @ ''#SBATCH --qos='' @ qos self @ ''\<newline>''
   @ ''#\<newline>''
   @ ''#SBATCH --job-name='' @ job_name self @ ''\<newline>''
   @ ''#SBATCH --output='' @ job_dir @ ''/'' @ output self @ ''\<newline>''
   @ ''#SBATCH --error='' @ job_dir @ ''/'' @ error self @ ''\<newline>''
   @ ''#\<newline>''
   @ ''#SBATCH --nodes='' @ str_int (nodes self) @ ''\<newline>''
   @ ''#SBATCH --ntasks-per-node='' @ str_int (ntasks_per_node self) @ ''\<newline>''
   @ ''#\<newline>''
   @ ''#SBATCH --time='' @ join '':'' (map format_02 (time_list (time self))) @ ''\<newline>''"

text \<open>The two loops, each appending to \<open>header\<close>.\<close>

fun optionals_loop :: "SlurmHeader \<Rightarrow> attr list \<Rightarrow> string \<Rightarrow> string" where
  "optionals_loop self [] header = header"
| "optionals_loop self (option # rest) header =
     (let v = getattr self option; default = field_default option
      in optionals_loop self rest
           (if v \<noteq> default
            then header @ ''#\<newline>''
                        @ ''#SBATCH --'' @ replace (attr_name option) ''_'' ''-''
                        @ ''='' @ str_value v @ ''\<newline>''
            else header))"

fun flags_loop :: "SlurmHeader \<Rightarrow> attr list \<Rightarrow> string \<Rightarrow> string" where
  "flags_loop self [] header = header"
| "flags_loop self (flag # rest) header =
     flags_loop self rest
       (if truthy (getattr self flag)
        then header @ ''#\<newline>''
                    @ ''#SBATCH --'' @ attr_name flag @ ''\<newline>''
        else header)"

text \<open>
  \<^verbatim>\<open>job_directory[-1]\<close> raises \<^verbatim>\<open>IndexError\<close> on the empty string;
  \<^verbatim>\<open>job_directory[:-1]\<close> drops the last character. The local variable
  \<^verbatim>\<open>job_directory\<close> is called \<open>job_dir\<close>, the field keeps its name.
\<close>

definition header_str :: "SlurmHeader \<Rightarrow> py_error + string" where
  "header_str self =
     (if job_directory self = [] then Inl IndexError
      else
        let job_dir =
              (if last (job_directory self) = CHR ''/'' then butlast (job_directory self)
               else job_directory self);
            header = mandatory_header self job_dir;
            header = optionals_loop self optionals header;
            header = flags_loop self flags header
        in Inr header)"

section \<open>SrunCall\<close>

text \<open>
  \<^verbatim>\<open>cpu_map_cmd\<close> takes three pieces of text (by default the shell references
  \<^verbatim>\<open>${L3SIZE}\<close>, \<^verbatim>\<open>${L3CORES}\<close>, \<^verbatim>\<open>${NODESIZE}\<close>) and splices them into a
  Python one-liner inside a shell command substitution.
\<close>

definition cpu_map_cmd :: "string \<Rightarrow> string \<Rightarrow> string \<Rightarrow> string" where
  \<open>cpu_map_cmd l3size_text l3cores_text nodesize_text =
     ''$(python3 -c "print(','.join(map(str,filter(lambda i: (i%'' @ l3size_text @ '')<''
     @ l3cores_text @ '', range('' @ nodesize_text @ '')))))")''\<close>

definition cpu_map_msg :: string where
  "cpu_map_msg = ''Must set all of l3cores,l3size,nodesize to generate an srun cpu_map''"

definition affinity_block :: "SrunCall \<Rightarrow> string" where
  "affinity_block self =
     ''\<newline>''
   @ ''# L3 cache is the lowest level of shared memory, with L3SIZE cores per cache\<newline>''
   @ ''# and NODESIZE/L3SIZE L3 caches per node. Using fewer than L3SIZE cores/L3\<newline>''
   @ ''# cache may improve strong scaling performance for memory bound applications.\<newline>''
   @ ''# The ntasks-per-node value must be equal to L3CORES*(NODESIZE/L3SIZE).\<newline>''
   @ ''\<newline>''
   @ ''L3CORES=''
   @ str_int (l3cores self)
   @ ''\<newline>''
   @ ''L3SIZE=''
   @ str_int (l3size self)
   @ ''\<newline>''
   @ ''NODESIZE=''
   @ str_int (nodesize self)
   @ ''\<newline>''
   @ ''\<newline>''
   @ ''CPU_MAP=''
   @ cpu_map_cmd ''${L3SIZE}'' ''${L3CORES}'' ''${NODESIZE}''
   @ ''\<newline>''"

definition srun_call_block :: "string \<Rightarrow> string" where
  \<open>srun_call_block srun_args =
     ''\<newline>''
   @ ''SRUN_ARGS="''
   @ srun_args
   @ ''"\<newline>''
   @ ''SRUN_CALL="srun ${SRUN_ARGS}"\<newline>''\<close>

definition srun_str :: "SrunCall \<Rightarrow> py_error + string" where
  "srun_str self =
     (let string = [];
          srun_args = SrunCall.args self;
          cpu_map_vals = [l3cores self, l3size self, nodesize self]
      in if list_ex (\<lambda>val. val > 0) cpu_map_vals then
           if \<not> list_all (\<lambda>val. val > 0) cpu_map_vals then Inl (ValueError cpu_map_msg)
           else
             let srun_args = srun_args @ '' --cpu_bind=map_cpu:${CPU_MAP}'';
                 string = string @ affinity_block self
             in Inr (string @ srun_call_block srun_args)
         else Inr (string @ srun_call_block srun_args))"

section \<open>SingularityCall.full_args\<close>

text \<open>
  The local variable \<^verbatim>\<open>args\<close> is assigned only in the first branch. It is modelled
  as the \<^typ>\<open>string option\<close> \<open>args_var\<close>, \<open>None\<close> while unassigned; every read
  goes through \<open>read_local\<close>.
\<close>

definition full_args :: "SingularityCall \<Rightarrow> py_error + string" where
  "full_args self =
     (let args_var = (if home self \<noteq> [] then Some (''--home '' @ home self) else None)
      in bind_result
           (if bind_from self \<noteq> [] then
              bind_result (read_local args_var) (\<lambda>a.
                let a = (if a \<noteq> [] \<and> \<not> endswith a '' '' then a @ '' '' else a)
                in Inr (Some (a @ ''--bind '' @ bind_from self)))
            else Inr args_var)
           (\<lambda>args_var.
              bind_result
                (if bind_to self \<noteq> [] then
                   bind_result (read_local args_var) (\<lambda>a. Inr (Some (a @ '':'' @ bind_to self)))
                 else Inr args_var)
                (\<lambda>args_var. read_local args_var)))"

section \<open>generate_submission_script\<close>

text \<open>
  The script template, cut at its section comments. The optional write of the script to
  \<^verbatim>\<open>script_name\<close> is a side effect on the file system and is not part of the model;
  the function's value is the returned text.
\<close>

definition job_setup_block :: "SlurmHeader \<Rightarrow> string" where
  "job_setup_block header =
     ''\<newline>''
   @ ''# exit on first error\<newline>''
   @ ''set -e\<newline>''
   @ ''\<newline>''
   @ ''# print commands\<newline>''
   @ ''set -x\<newline>''
   @ ''\<newline>''
   @ ''### === --- Unique identifier and directory\<newline>''
   @ ''\<newline>''
   @ ''JOBCODE=${SLURM_JOB_NAME}-${SLURM_JOB_ID}\<newline>''
   @ ''JOBDIR=''
   @ job_directory header
   @ ''/${JOBCODE}\<newline>''
   @ ''mkdir -p ${JOBDIR}\<newline>''
   @ ''\<newline>''"

definition python_block :: "PythonCall \<Rightarrow> string" where
  \<open>python_block python =
     ''### === --- Python scripts and arguments\<newline>''
   @ ''\<newline>''
   @ ''PYTHON_SCRIPT=''
   @ script_name python
   @ ''\<newline>''
   @ ''PYTHON_SCRIPT_DIR=''
   @ script_dir python
   @ ''\<newline>''
   @ ''\<newline>''
   @ ''PYTHON_SCRIPT_ARGS="''
   @ script_args python
   @ ''"\<newline>''
   @ ''\<newline>''
   @ ''### === --- Python executable\<newline>''
   @ ''\<newline>''
   @ ''PYTHON_ARGS="''
   @ PythonCall.args python
   @ ''"\<newline>''
   @ ''PYTHON_EXEC="''
   @ path python
   @ ''"\<newline>''
   @ ''\<newline>''
   @ ''PYTHON_CALL="${PYTHON_EXEC} ${PYTHON_ARGS}"\<newline>''
   @ ''\<newline>''\<close>

definition singularity_block :: "SingularityCall \<Rightarrow> string \<Rightarrow> string" where
  \<open>singularity_block singularity full_args_text =
     ''### === --- Setup the environment for singularity\<newline>''
   @ ''\<newline>''
   @ ''export SIFDIR="''
   @ directory singularity
   @ ''"\<newline>''
   @ ''CONTAINER="''
   @ container singularity
   @ ''"\<newline>''
   @ ''\<newline>''
   @ ''SINGULARITY_ARGS="''
   @ full_args_text
   @ ''"\<newline>''
   @ ''SINGULARITY_CALL="singularity run ${SINGULARITY_ARGS}"\<newline>''
   @ ''\<newline>''
   @ ''source ${SIFDIR}/''
   @ setup_file singularity
   @ ''\<newline>''
   @ ''\<newline>''\<close>

definition srun_block :: "SrunCall \<Rightarrow> string \<Rightarrow> string" where
  "srun_block srun srun_text =
     ''### === --- srun call\<newline>''
   @ ''\<newline>''
   @ srun_text
   @ ''\<newline>''
   @ ''\<newline>''
   @ ''### === --- Print rank layout or not?\<newline>''
   @ ''\<newline>''
   @ ''RUN_XTHI=''
   @ str_int (int_of_bool (xthi srun))
   @ ''\<newline>''
   @ ''\<newline>''"

definition static_block :: string where
  \<open>static_block =
     ''### === --- ------------------------------------------------ --- === ###\<newline>''
   @ ''### === --- Usually won't need to change anything below here --- === ###\<newline>''
   @ ''### === --- ------------------------------------------------ --- === ###\<newline>''
   @ ''\<newline>''
   @ ''### === --- Some job info for debugging\<newline>''
   @ ''\<newline>''
   @ ''set +x\<newline>''
   @ ''echo -e "Job started at " `date`\<newline>''
   @ ''echo ""\<newline>''
   @ ''\<newline>''
   @ ''echo "What job is running?"\<newline>''
   @ ''echo SLURM_JOB_ID          = $SLURM_JOB_ID\<newline>''
   @ ''echo SLURM_JOB_NAME        = $SLURM_JOB_NAME\<newline>''
   @ ''echo SLURM_JOB_ACCOUNT     = $SLURM_JOB_ACCOUNT\<newline>''
   @ ''echo ""\<newline>''
   @ ''\<newline>''
   @ ''echo "Where is the job running?"\<newline>''
   @ ''echo SLURM_CLUSTER_NAME    = $SLURM_CLUSTER_NAME\<newline>''
   @ ''echo SLURM_JOB_PARTITION   = $SLURM_JOB_PARTITION\<newline>''
   @ ''echo SLURM_JOB_QOS         = $SLURM_JOB_QOS\<newline>''
   @ ''echo SLURM_SUBMIT_DIR      = $SLURM_SUBMIT_DIR\<newline>''
   @ ''echo ""\<newline>''
   @ ''\<newline>''
   @ ''echo "What are we running on?"\<newline>''
   @ ''echo SLURM_DISTRIBUTION    = $SLURM_DISTRIBUTION\<newline>''
   @ ''echo SLURM_NTASKS          = $SLURM_NTASKS\<newline>''
   @ ''echo SLURM_NTASKS_PER_NODE = $SLURM_NTASKS_PER_NODE\<newline>''
   @ ''echo SLURM_JOB_NUM_NODES   = $SLURM_JOB_NUM_NODES\<newline>''
   @ ''echo SLURM_JOB_NODELIST    = $SLURM_JOB_NODELIST\<newline>''
   @ ''echo ""\<newline>''
   @ ''set -x\<newline>''
   @ ''\<newline>''
   @ ''### === --- Check the rank layout\<newline>''
   @ ''\<newline>''
   @ ''if [[ ${RUN_XTHI} -gt 0 ]]; then\<newline>''
   @ ''   export MPICH_ENV_DISPLAY=1\<newline>''
   @ ''   set +x\<newline>''
   @ ''   echo module load xthi\<newline>''
   @ ''   module load xthi\<newline>''
   @ ''   set -x\<newline>''
   @ ''   echo -e "xthi started at " `date`\<newline>''
   @ ''   $SRUN_CALL xthi > ${JOBDIR}/xthi.log 2>&1\<newline>''
   @ ''   echo -e "xthi finished at " `date`\<newline>''
   @ ''   unset MPICH_ENV_DISPLAY\<newline>''
   @ ''fi\<newline>''
   @ ''\<newline>''
   @ ''### === --- Copy files to nodes\<newline>''
   @ ''\<newline>''
   @ ''echo -e "Start copying files to nodes: " `date`\<newline>''
   @ ''echo -e ""\<newline>''
   @ ''\<newline>''
   @ ''TMP_SCRIPT=${JOBDIR}/${JOBCODE}-${PYTHON_SCRIPT}\<newline>''
   @ ''\<newline>''
   @ ''cp ${PYTHON_SCRIPT_DIR}/${PYTHON_SCRIPT} ${TMP_SCRIPT}\<newline>''
   @ ''\<newline>''
   @ ''sbcast --compress=none ${SIFDIR}/${CONTAINER} /tmp/${CONTAINER}\<newline>''
   @ ''\<newline>''
   @ ''### === --- Run the script\<newline>''
   @ ''\<newline>''
   @ ''set +x\<newline>''
   @ ''echo -e "Script start time: " `date`\<newline>''
   @ ''echo -e ""\<newline>''
   @ ''\<newline>''
   @ ''set -x\<newline>''
   @ ''${SRUN_CALL} ${SINGULARITY_CALL} /tmp/${CONTAINER} '' @ [CHR 0x5C] @ '' \<newline>''
   @ ''    ${PYTHON_CALL} ${TMP_SCRIPT} ${PYTHON_SCRIPT_ARGS}\<newline>''
   @ ''\<newline>''
   @ ''echo -e "Script end time: " `date`\<newline>''
   @ ''\<newline>''\<close>

definition output_copy_block :: "string \<Rightarrow> string" where
  "output_copy_block output_file =
     ''OUTPUT_FILE=''
   @ output_file
   @ ''\<newline>''
   @ ''cp ${OUTPUT_FILE} ${JOBDIR}/${OUTPUT_FILE}\<newline>''"

definition error_copy_block :: "string \<Rightarrow> string" where
  "error_copy_block error_file =
     ''\<newline>''
   @ ''ERROR_FILE=''
   @ error_file
   @ ''\<newline>''
   @ ''cp ${ERROR_FILE} ${JOBDIR}/${ERROR_FILE}\<newline>''"

definition generate_submission_script ::
  "SlurmHeader \<Rightarrow> PythonCall \<Rightarrow> SrunCall \<Rightarrow> SingularityCall \<Rightarrow> py_error + string" where
  "generate_submission_script header python srun singularity =
     (let output_file = job_directory header @ ''/'' @ output header;
          output_file = replace output_file ''%x'' ''${SLURM_JOB_NAME}'';
          output_file = replace output_file ''%j'' ''${SLURM_JOB_ID}'';
          error_file = job_directory header @ ''/'' @ error header;
          error_file = replace error_file ''%x'' ''${SLURM_JOB_NAME}'';
          error_file = replace error_file ''%j'' ''${SLURM_JOB_ID}''
      in bind_result (header_str header) (\<lambda>script.
         bind_result (full_args singularity) (\<lambda>full_args_text.
         bind_result (srun_str srun) (\<lambda>srun_text.
           let script = script
                 @ job_setup_block header
                 @ python_block python
                 @ singularity_block singularity full_args_text
                 @ srun_block srun srun_text
                 @ static_block
                 @ output_copy_block output_file;
               script = (if error_file \<noteq> output_file
                         then script @ error_copy_block error_file else script)
           in Inr script))))"

section \<open>The example configuration\<close>

text \<open>
  The configuration built under \<^verbatim>\<open>if __name__ == "__main__"\<close>; fields the script leaves
  out have their declared defaults.
\<close>

definition main_header :: SlurmHeader where
  "main_header = \<lparr>account = ''e781'', partition = ''standard'', qos = ''standard'',
     job_name = ''test_job'', output = ''slurm-%x-%j.out'', error = ''slurm-%x-%j.out'',
     nodes = 1, ntasks_per_node = 2, time = (0, 5, 0), switches = - 1,
     distribution = ''block:block'', hint = ''nomultithread'', exclusive = True, requeue = True,
     mail_user = [], mail_type = [], bash_path = ''!/bin/bash'', job_directory = ''results''\<rparr>"

definition main_python :: PythonCall where
  "main_python = \<lparr>path = ''/home/firedrake/firedrake/bin/python'', PythonCall.args = [],
     script_name = ''script.py'', script_dir = ''examples'',
     script_args = ''--metrics_dir=${JOBDIR} --extra_arg=value''\<rparr>"

definition main_srun :: SrunCall where
  "main_srun = \<lparr>l3cores = 2, l3size = 4, nodesize = 128,
     SrunCall.args = ''--hint=nomultithread'', xthi = True\<rparr>"

definition main_singularity :: SingularityCall where
  "main_singularity = \<lparr>container = ''firedrake-archer2.sif'', args = [],
     bind_from = ''$PWD'', bind_to = ''/home/firedrake/work'', home = ''$PWD'',
     directory = ''/work/e781/shared/firedrake-singularity'',
     setup_file = ''singularity_setup.sh''\<rparr>"

definition default_singularity :: SingularityCall where
  "default_singularity = \<lparr>container = ''firedrake-archer2.sif'', args = [],
     bind_from = [], bind_to = [], home = [], directory = [], setup_file = []\<rparr>"

section \<open>The CPU map at submission time\<close>





section \<open>Lines of a rendered header\<close>

text \<open>
  What it means for a text to contain a line: \<open>split_lines\<close> cuts a text at its
  newline characters, as Python's \<^verbatim>\<open>split\<close> at the newline character does.
  \<open>directive_line\<close> and \<open>flag_line\<close> are the second lines of the blocks the two loops
  of \<^verbatim>\<open>__str__\<close> append.
  \<open>text_fields\<close> lists the string fields the renderer splices into the header,
  \<open>mandatory_lines\<close> the lines of the first f-string, and \<open>stripped_directory\<close> the
  local \<^verbatim>\<open>job_directory\<close> once the renderer has passed the trailing-slash test.
\<close>

fun lines_from :: "string \<Rightarrow> string \<Rightarrow> string list" where
  "lines_from cur [] = [cur]"
| "lines_from cur (c # cs) =
     (if c = CHR 0x0A then cur # lines_from [] cs else lines_from (cur @ [c]) cs)"

definition split_lines :: "string \<Rightarrow> string list" where
  "split_lines text = lines_from [] text"

definition header_has_line :: "SlurmHeader \<Rightarrow> string \<Rightarrow> bool" where
  "header_has_line self line =
     (case header_str self of Inl e \<Rightarrow> False | Inr text \<Rightarrow> line \<in> set (split_lines text))"

definition directive_line :: "attr \<Rightarrow> py_value \<Rightarrow> string" where
  "directive_line option v =
     ''#SBATCH --'' @ replace (attr_name option) ''_'' ''-'' @ ''='' @ str_value v"

definition flag_line :: "attr \<Rightarrow> string" where
  "flag_line flag = ''#SBATCH --'' @ attr_name flag"

definition single_line :: "string \<Rightarrow> bool" where
  "single_line s = (CHR 0x0A \<notin> set s)"

definition text_fields :: "SlurmHeader \<Rightarrow> string list" where
  "text_fields self =
     [bash_path self, account self, partition self, qos self, job_name self,
      job_directory self, output self, error self,
      distribution self, hint self, mail_user self, mail_type self]"

definition mandatory_lines :: "SlurmHeader \<Rightarrow> string \<Rightarrow> string list" where
  "mandatory_lines self job_dir =
     [''#'' @ bash_path self,
      ''#'',
      ''#SBATCH --account='' @ account self,
      ''#SBATCH --partition='' @ partition self,
      ''#SBATCH --qos='' @ qos self,
      ''#'',
      ''#SBATCH --job-name='' @ job_name self,
      ''#SBATCH --output='' @ job_dir @ ''/'' @ output self,
      ''#SBATCH --error='' @ job_dir @ ''/'' @ error self,
      ''#'',
      ''#SBATCH --nodes='' @ str_int (nodes self),
      ''#SBATCH --ntasks-per-node='' @ str_int (ntasks_per_node self),
      ''#'',
      ''#SBATCH --time='' @ join '':'' (map format_02 (time_list (time self)))]"

definition stripped_directory :: "SlurmHeader \<Rightarrow> string" where
  "stripped_directory self =
     (if last (job_directory self) = CHR ''/'' then butlast (job_directory self)
      else job_directory self)"

text \<open>
  Two headers whose first line, \<^verbatim>\<open>#\<close> followed by \<open>bash_path\<close>, reads like a
  directive.
\<close>

definition spoof_header :: SlurmHeader where
  "spoof_header = main_header\<lparr>bash_path := ''SBATCH --hint='', hint := [],
     exclusive := False\<rparr>"

definition spoof_flag_header :: SlurmHeader where
  "spoof_flag_header = main_header\<lparr>bash_path := ''SBATCH --exclusive'', exclusive := False\<rparr>"

section \<open>SingularityCall.full_args: the accumulator\<close>

lemma full_args_no_home: "home c = [] \<Longrightarrow> full_args c = Inl UnboundLocalError"
  by (simp add: full_args_def bind_result_def read_local_def)

text \<open>
  Claim C10. With a non-empty \<open>home\<close>, an empty \<open>bind_from\<close> and a non-empty
  \<open>bind_to\<close>, \<open>full_args\<close> returns \<^verbatim>\<open>--home <home>:<bind_to>\<close>: the destination suffix
  lands on the home argument, no \<^verbatim>\<open>--bind\<close> argument having been emitted.
\<close>

theorem full_args_home_bind_to:
  assumes "home c \<noteq> []" and "bind_from c = []" and "bind_to c \<noteq> []"
  shows "full_args c = Inr (''--home '' @ home c @ '':'' @ bind_to c)"
  using assms by (simp add: full_args_def bind_result_def read_local_def)

theorem full_args_home_bind_to_witness:
  "full_args (main_singularity\<lparr>bind_from := []\<rparr>) = Inr ''--home $PWD:/home/firedrake/work''"
  using full_args_home_bind_to [of "main_singularity\<lparr>bind_from := []\<rparr>"]
  by (simp add: main_singularity_def)

text \<open>
  Claim C8. When \<open>home\<close> is the empty string (its default), \<open>full_args\<close> raises
  \<^verbatim>\<open>UnboundLocalError\<close> whatever \<open>bind_from\<close> and \<open>bind_to\<close> are, all three empty
  included; so \<open>generate_submission_script\<close> fails for every such container
  configuration (with the header's \<^verbatim>\<open>IndexError\<close> when that is raised first).
\<close>

theorem full_args_unbound:
  assumes "home c = []"
  shows "full_args c = Inl UnboundLocalError \<and>
         generate_submission_script h p s c =
           Inl (if job_directory h = [] then IndexError else UnboundLocalError)"
  using assms
  by (simp add: full_args_no_home generate_submission_script_def header_str_def
      bind_result_def Let_def)

theorem full_args_unbound_witness:
  "full_args (main_singularity\<lparr>home := []\<rparr>) = Inl UnboundLocalError \<and>
   full_args (main_singularity\<lparr>home := [], bind_from := [], bind_to := []\<rparr>)
     = Inl UnboundLocalError \<and>
   generate_submission_script main_header main_python main_srun
     (main_singularity\<lparr>home := []\<rparr>) = Inl UnboundLocalError"
  using full_args_unbound [of "main_singularity\<lparr>home := []\<rparr>" main_header main_python main_srun]
    full_args_unbound [of "main_singularity\<lparr>home := [], bind_from := [], bind_to := []\<rparr>"
      main_header main_python main_srun]
  by (simp add: main_header_def)

section \<open>SlurmHeader.__str__: the job directory\<close>

text \<open>
  Claim C9. Rendering a header whose \<open>job_directory\<close> is the empty string (its default)
  raises \<^verbatim>\<open>IndexError\<close> at the trailing-slash test; rendering returns a text exactly
  when \<open>job_directory\<close> is non-empty.
\<close>

theorem header_str_index_error:
  "(header_str h = Inl IndexError \<longleftrightarrow> job_directory h = []) \<and>
   ((\<exists>text. header_str h = Inr text) \<longleftrightarrow> job_directory h \<noteq> [])"
  by (simp add: header_str_def Let_def)

theorem header_str_index_error_witness:
  "header_str (main_header\<lparr>job_directory := []\<rparr>) = Inl IndexError \<and>
   (\<exists>text. header_str main_header = Inr text)"
  using header_str_index_error [of "main_header\<lparr>job_directory := []\<rparr>"]
    header_str_index_error [of main_header]
  by (simp add: main_header_def)

section \<open>SrunCall.__str__: the affinity triple\<close>



section \<open>Decimal numerals and replacement\<close>

lemma digit_char_in: "d < 10 \<Longrightarrow> digit_char d \<in> set ''0123456789''"
  unfolding digit_char_def by (rule nth_mem) simp

lemma str_nat_chars: "set (str_nat n) \<subseteq> set ''0123456789''"
proof (induction n rule: str_nat.induct)
  case (1 n)
  show ?case
  proof (cases "n < 10")
    case True
    then show ?thesis using digit_char_in [of n] by (subst str_nat.simps) simp
  next
    case False
    have "n mod 10 < 10" by simp
    then have "digit_char (n mod 10) \<in> set ''0123456789''" by (rule digit_char_in)
    with False 1 show ?thesis by (subst str_nat.simps) simp
  qed
qed

lemma str_int_chars: "set (str_int i) \<subseteq> set ''-0123456789''"
proof (cases "i < 0")
  case True
  have "set (str_nat (nat (- i))) \<subseteq> set ''-0123456789''"
    using str_nat_chars [of "nat (- i)"] by (rule subset_trans) (simp add: subset_insertI2)
  with True show ?thesis by (simp add: str_int_def)
next
  case False
  have "set (str_nat (nat i)) \<subseteq> set ''-0123456789''"
    using str_nat_chars [of "nat i"] by (rule subset_trans) (simp add: subset_insertI2)
  with False show ?thesis by (simp add: str_int_def)
qed




section \<open>The CPU map\<close>






section \<open>generate_submission_script\<close>

lemma suffix_same_length_tail:
  assumes "suffix (a @ t1) (b @ t2)" and "length t1 = length t2"
  shows "t1 = t2"
proof -
  from assms(1) obtain zs where "b @ t2 = (zs @ a) @ t1"
    by (auto simp add: suffix_def)
  with assms(2) show ?thesis
    using append_eq_append_conv [of b "zs @ a" t2 t1] by simp
qed

lemma error_block_not_suffix:
  "\<not> suffix (error_copy_block e) (x @ output_copy_block f)"
proof
  assume "suffix (error_copy_block e) (x @ output_copy_block f)"
  then have "suffix ((''\<newline>ERROR_FILE='' @ e @ ''\<newline>cp ${ERROR_FILE} ${JOBDIR}/${ERRO'') @ ''R_FILE}\<newline>'')
       ((x @ ''OUTPUT_FILE='' @ f @ ''\<newline>cp ${OUTPUT_FILE} ${JOBDIR}/${OUTPU'') @ ''T_FILE}\<newline>'')"
    by (simp add: error_copy_block_def output_copy_block_def)
  then have "''R_FILE}\<newline>'' = ''T_FILE}\<newline>''"
    by (rule suffix_same_length_tail) simp
  then show False by simp
qed

text \<open>
  Claim C6. The output (resp. error) file is \<open>job_directory\<close>, a slash and the
  \<open>output\<close> (resp. \<open>error\<close>) pattern, with \<^verbatim>\<open>%x\<close> replaced by
  \<^verbatim>\<open>${SLURM_JOB_NAME}\<close> and then \<^verbatim>\<open>%j\<close> by \<^verbatim>\<open>${SLURM_JOB_ID}\<close>. A returned script is
  the header, the fixed blocks and the output copy-back block for that output file,
  followed by the error copy-back block exactly when the two resolved files differ as
  strings: the script ends with that block if and only if they differ.
\<close>

theorem generate_error_block:
  assumes "generate_submission_script h p s c = Inr script"
  defines "output_file \<equiv> replace (replace (job_directory h @ ''/'' @ output h)
             ''%x'' ''${SLURM_JOB_NAME}'') ''%j'' ''${SLURM_JOB_ID}''"
      and "error_file \<equiv> replace (replace (job_directory h @ ''/'' @ error h)
             ''%x'' ''${SLURM_JOB_NAME}'') ''%j'' ''${SLURM_JOB_ID}''"
  shows "(\<exists>hdr fa sr. header_str h = Inr hdr \<and> full_args c = Inr fa \<and> srun_str s = Inr sr \<and>
            script = hdr @ job_setup_block h @ python_block p @ singularity_block c fa
                     @ srun_block s sr @ static_block @ output_copy_block output_file
                     @ (if error_file \<noteq> output_file then error_copy_block error_file else []))
         \<and> (suffix (error_copy_block error_file) script \<longleftrightarrow> error_file \<noteq> output_file)"
proof -
  from assms(1) obtain hdr fa sr where parts:
    "header_str h = Inr hdr" "full_args c = Inr fa" "srun_str s = Inr sr"
    by (auto simp add: generate_submission_script_def bind_result_def Let_def
        split: sum.splits)
  let ?body = "hdr @ job_setup_block h @ python_block p @ singularity_block c fa
                     @ srun_block s sr @ static_block"
  have script: "script = ?body @ output_copy_block output_file
                     @ (if error_file \<noteq> output_file then error_copy_block error_file else [])"
    using assms(1) parts
    by (auto simp add: generate_submission_script_def bind_result_def Let_def
        output_file_def error_file_def split: if_splits)
  have "suffix (error_copy_block error_file) script \<longleftrightarrow> error_file \<noteq> output_file"
  proof (cases "error_file = output_file")
    case True
    then have "script = ?body @ output_copy_block output_file"
      using script by simp
    then show ?thesis
      using True error_block_not_suffix [of error_file ?body output_file] by simp
  next
    case False
    then have "script = (?body @ output_copy_block output_file) @ error_copy_block error_file"
      using script by simp
    then show ?thesis
      using False by (simp only: suffix_appendI suffix_order.refl simp_thms)
  qed
  with parts script show ?thesis by auto
qed

theorem generate_error_block_witness:
  "(\<exists>script. generate_submission_script main_header main_python main_srun main_singularity
       = Inr script \<and>
     \<not> suffix (error_copy_block ''results/slurm-${SLURM_JOB_NAME}-${SLURM_JOB_ID}.out'') script) \<and>
   (\<exists>script. generate_submission_script (main_header\<lparr>error := ''slurm-%x-%j.err''\<rparr>)
       main_python main_srun main_singularity = Inr script \<and>
     suffix (error_copy_block ''results/slurm-${SLURM_JOB_NAME}-${SLURM_JOB_ID}.err'') script)"
proof -
  let ?h = "main_header\<lparr>error := ''slurm-%x-%j.err''\<rparr>"
  obtain s1 where s1: "generate_submission_script main_header main_python main_srun
      main_singularity = Inr s1"
    by (simp add: generate_submission_script_def bind_result_def Let_def header_str_def
        full_args_def read_local_def srun_str_def main_header_def main_srun_def
        main_singularity_def)
  obtain s2 where s2: "generate_submission_script ?h main_python main_srun
      main_singularity = Inr s2"
    by (simp add: generate_submission_script_def bind_result_def Let_def header_str_def
        full_args_def read_local_def srun_str_def main_header_def main_srun_def
        main_singularity_def)
  have "\<not> suffix (error_copy_block ''results/slurm-${SLURM_JOB_NAME}-${SLURM_JOB_ID}.out'') s1"
    using generate_error_block [OF s1] by (simp add: main_header_def replace_def)
  moreover
  have "suffix (error_copy_block ''results/slurm-${SLURM_JOB_NAME}-${SLURM_JOB_ID}.err'') s2"
    using generate_error_block [OF s2] by (simp add: main_header_def replace_def)
  ultimately show ?thesis using s1 s2 by simp
qed

text \<open>
  Claim C4 (trailing slash). \<open>header_str\<close> strips one trailing slash from
  \<open>job_directory\<close>, so the headers for \<^verbatim>\<open>results/\<close> and \<^verbatim>\<open>results\<close> are equal; but
  \<open>generate_submission_script\<close> splices the unstripped field into \<^verbatim>\<open>JOBDIR=\<close> and into
  the resolved output and error files, so the two scripts differ.
\<close>

theorem trailing_slash_scripts_differ:
  "header_str (main_header\<lparr>job_directory := ''results/''\<rparr>) = header_str main_header \<and>
   generate_submission_script (main_header\<lparr>job_directory := ''results/''\<rparr>)
       main_python main_srun main_singularity
     \<noteq> generate_submission_script main_header main_python main_srun main_singularity"
proof -
  let ?h = "main_header\<lparr>job_directory := ''results/''\<rparr>"
  have hdr: "header_str ?h = header_str main_header"
    by (simp add: header_str_def main_header_def mandatory_header_def optionals_def flags_def)
  obtain H where H: "header_str main_header = Inr H"
    by (simp add: header_str_def main_header_def)
  obtain F where F: "full_args main_singularity = Inr F"
    by (simp add: full_args_def main_singularity_def bind_result_def read_local_def)
  obtain S where S: "srun_str main_srun = Inr S"
    by (simp add: srun_str_def main_srun_def)
  have pat: "error ?h = output ?h" "error main_header = output main_header"
    by (simp_all add: main_header_def)
  have "job_setup_block ?h @ x \<noteq> job_setup_block main_header @ y" for x y
    by (simp add: job_setup_block_def main_header_def)
  then have "generate_submission_script ?h main_python main_srun main_singularity
     \<noteq> generate_submission_script main_header main_python main_srun main_singularity"
    using H F S hdr pat
    by (simp add: generate_submission_script_def bind_result_def Let_def)
  with hdr show ?thesis by simp
qed

text \<open>
  Claim C1 (totality of everything but the affinity check). With a valid affinity triple,
  \<open>full_args\<close> still raises on the container configuration that leaves \<open>home\<close> at its
  default, and \<open>header_str\<close> raises on a header that leaves \<open>job_directory\<close> at its
  default; \<open>generate_submission_script\<close> fails on both.
\<close>

theorem pipeline_fails_on_defaults:
  "full_args default_singularity = Inl UnboundLocalError \<and>
   generate_submission_script main_header main_python main_srun default_singularity
     = Inl UnboundLocalError \<and>
   header_str (main_header\<lparr>job_directory := []\<rparr>) = Inl IndexError \<and>
   generate_submission_script (main_header\<lparr>job_directory := []\<rparr>) main_python main_srun
     main_singularity = Inl IndexError"
  by (simp add: full_args_no_home generate_submission_script_def header_str_def
      bind_result_def Let_def default_singularity_def main_header_def)

section \<open>The lines of a rendered header\<close>

lemma lines_from_single:
  "single_line l \<Longrightarrow> lines_from cur (l @ t) = lines_from (cur @ l) t"
  by (induction l arbitrary: cur) (auto simp add: single_line_def)

lemma lines_from_line:
  "single_line l \<Longrightarrow> lines_from [] (l @ CHR 0x0A # t) = l # lines_from [] t"
  by (simp add: lines_from_single)

lemma optionals_loop_acc:
  "optionals_loop h as acc = acc @ optionals_loop h as []"
proof (induction as arbitrary: acc)
  case Nil
  show ?case by simp
next
  case (Cons a as)
  define b where "b = ''#\<newline>'' @ ''#SBATCH --'' @ replace (attr_name a) ''_'' ''-''
                        @ ''='' @ str_value (getattr h a) @ ''\<newline>''"
  have step: "optionals_loop h (a # as) x
      = optionals_loop h as (if getattr h a \<noteq> field_default a then x @ b else x)" for x
    by (simp add: Let_def b_def)
  show ?case
    unfolding step
    using Cons.IH [of "acc @ b"] Cons.IH [of acc] Cons.IH [of "[] @ b"]
    by simp
qed

lemma flags_loop_acc:
  "flags_loop h fs acc = acc @ flags_loop h fs []"
proof (induction fs arbitrary: acc)
  case Nil
  show ?case by simp
next
  case (Cons a as)
  define b where "b = ''#\<newline>'' @ ''#SBATCH --'' @ attr_name a @ ''\<newline>''"
  have step: "flags_loop h (a # as) x
      = flags_loop h as (if truthy (getattr h a) then x @ b else x)" for x
    by (simp add: b_def)
  show ?case
    unfolding step
    using Cons.IH [of "acc @ b"] Cons.IH [of acc] Cons.IH [of "[] @ b"]
    by simp
qed

lemma optionals_loop_lines:
  assumes "\<forall>a\<in>set as. single_line (directive_line a (getattr h a))"
  shows "lines_from [] (optionals_loop h as [] @ rest)
     = concat (map (\<lambda>a. [''#'', directive_line a (getattr h a)])
         (filter (\<lambda>a. getattr h a \<noteq> field_default a) as)) @ lines_from [] rest"
  using assms
proof (induction as)
  case Nil
  show ?case by simp
next
  case (Cons a as)
  have sl: "single_line (directive_line a (getattr h a))"
    using Cons.prems by simp
  have IH: "lines_from [] (optionals_loop h as [] @ rest)
     = concat (map (\<lambda>a. [''#'', directive_line a (getattr h a)])
         (filter (\<lambda>a. getattr h a \<noteq> field_default a) as)) @ lines_from [] rest"
    using Cons by simp
  have step: "optionals_loop h (a # as) []
      = (if getattr h a \<noteq> field_default a
         then ''#'' @ CHR 0x0A # directive_line a (getattr h a) @ CHR 0x0A # optionals_loop h as []
         else optionals_loop h as [])"
    using optionals_loop_acc [of h as "''#\<newline>'' @ ''#SBATCH --'' @ replace (attr_name a) ''_'' ''-''
                        @ ''='' @ str_value (getattr h a) @ ''\<newline>''"]
    by (simp add: Let_def directive_line_def)
  have hash: "single_line ''#''" by (simp add: single_line_def)
  show ?case
  proof (cases "getattr h a \<noteq> field_default a")
    case True
    then have "optionals_loop h (a # as) []
        = ''#'' @ CHR 0x0A # directive_line a (getattr h a) @ CHR 0x0A # optionals_loop h as []"
      by (simp only: step simp_thms if_True)
    then have "lines_from [] (optionals_loop h (a # as) [] @ rest)
       = lines_from [] (''#'' @ CHR 0x0A # (directive_line a (getattr h a) @ CHR 0x0A #
            (optionals_loop h as [] @ rest)))"
      by (simp only: append_assoc append.simps)
    also have "\<dots> = ''#'' # directive_line a (getattr h a)
          # lines_from [] (optionals_loop h as [] @ rest)"
      by (simp only: lines_from_line [OF hash] lines_from_line [OF sl])
    finally show ?thesis using True IH by simp
  next
    case False
    then show ?thesis using IH by (simp only: step if_not_P filter.simps simp_thms if_False)
  qed
qed

lemma flags_loop_lines:
  assumes "\<forall>a\<in>set fs. single_line (flag_line a)"
  shows "lines_from [] (flags_loop h fs [] @ rest)
     = concat (map (\<lambda>a. [''#'', flag_line a])
         (filter (\<lambda>a. truthy (getattr h a)) fs)) @ lines_from [] rest"
  using assms
proof (induction fs)
  case Nil
  show ?case by simp
next
  case (Cons a as)
  have sl: "single_line (flag_line a)"
    using Cons.prems by simp
  have IH: "lines_from [] (flags_loop h as [] @ rest)
     = concat (map (\<lambda>a. [''#'', flag_line a])
         (filter (\<lambda>a. truthy (getattr h a)) as)) @ lines_from [] rest"
    using Cons by simp
  have step: "flags_loop h (a # as) []
      = (if truthy (getattr h a)
         then ''#'' @ CHR 0x0A # flag_line a @ CHR 0x0A # flags_loop h as []
         else flags_loop h as [])"
    using flags_loop_acc [of h as "''#\<newline>'' @ ''#SBATCH --'' @ attr_name a @ ''\<newline>''"]
    by (simp add: flag_line_def)
  have hash: "single_line ''#''" by (simp add: single_line_def)
  show ?case
  proof (cases "truthy (getattr h a)")
    case True
    then have "flags_loop h (a # as) []
        = ''#'' @ CHR 0x0A # flag_line a @ CHR 0x0A # flags_loop h as []"
      by (simp only: step simp_thms if_True)
    then have "lines_from [] (flags_loop h (a # as) [] @ rest)
       = lines_from [] (''#'' @ CHR 0x0A # (flag_line a @ CHR 0x0A #
            (flags_loop h as [] @ rest)))"
      by (simp only: append_assoc append.simps)
    also have "\<dots> = ''#'' # flag_line a # lines_from [] (flags_loop h as [] @ rest)"
      by (simp only: lines_from_line [OF hash] lines_from_line [OF sl])
    finally show ?thesis using True IH by simp
  next
    case False
    then show ?thesis using IH by (simp only: step if_not_P filter.simps simp_thms if_False)
  qed
qed

lemma single_line_append [simp]:
  "single_line (xs @ ys) \<longleftrightarrow> single_line xs \<and> single_line ys"
  by (auto simp add: single_line_def)

lemma single_line_Cons [simp]:
  "single_line (c # cs) \<longleftrightarrow> c \<noteq> CHR 0x0A \<and> single_line cs"
  by (auto simp add: single_line_def)

lemma single_line_Nil [simp]: "single_line []"
  by (simp add: single_line_def)

lemma single_line_str_int [simp]: "single_line (str_int i)"
  unfolding single_line_def
proof
  assume "CHR 0x0A \<in> set (str_int i)"
  with str_int_chars [of i] have "CHR 0x0A \<in> set ''-0123456789''" by (rule subsetD)
  then show False by simp
qed

lemma single_line_format_02 [simp]: "single_line (format_02 t)"
  by (simp add: format_02_def Let_def)

lemma single_line_time [simp]:
  "single_line (join '':'' (map format_02 (time_list t)))"
  by (cases t) (simp add: time_list_def)

lemma single_line_butlast: "single_line s \<Longrightarrow> single_line (butlast s)"
  unfolding single_line_def by (auto dest: in_set_butlastD)

lemma lines_from_unlines:
  assumes "\<forall>l\<in>set ls. single_line l"
  shows "lines_from [] (concat (map (\<lambda>l. l @ [CHR 0x0A]) ls) @ rest) = ls @ lines_from [] rest"
  using assms
proof (induction ls)
  case Nil
  show ?case by simp
next
  case (Cons l ls)
  then have "single_line l" and IH: "lines_from [] (concat (map (\<lambda>l. l @ [CHR 0x0A]) ls) @ rest)
      = ls @ lines_from [] rest"
    by simp_all
  have "lines_from [] (concat (map (\<lambda>l. l @ [CHR 0x0A]) (l # ls)) @ rest)
      = lines_from [] (l @ CHR 0x0A # (concat (map (\<lambda>l. l @ [CHR 0x0A]) ls) @ rest))"
    by simp
  also have "\<dots> = l # lines_from [] (concat (map (\<lambda>l. l @ [CHR 0x0A]) ls) @ rest)"
    using \<open>single_line l\<close> by (rule lines_from_line)
  finally show ?case using IH by simp
qed

lemma mandatory_header_unlines:
  "mandatory_header h jd = concat (map (\<lambda>l. l @ [CHR 0x0A]) (mandatory_lines h jd))"
  by (simp add: mandatory_header_def mandatory_lines_def)

lemma mandatory_header_lines:
  assumes "single_line (bash_path h)" "single_line (account h)" "single_line (partition h)"
    "single_line (qos h)" "single_line (job_name h)" "single_line jd"
    "single_line (output h)" "single_line (error h)"
  shows "lines_from [] (mandatory_header h jd @ rest) = mandatory_lines h jd @ lines_from [] rest"
proof -
  have "\<forall>l\<in>set (mandatory_lines h jd). single_line l"
    using assms by (simp add: mandatory_lines_def)
  then show ?thesis
    unfolding mandatory_header_unlines by (rule lines_from_unlines)
qed

lemma directive_names:
  "replace ''switches'' ''_'' ''-'' = ''switches''"
  "replace ''distribution'' ''_'' ''-'' = ''distribution''"
  "replace ''hint'' ''_'' ''-'' = ''hint''"
  "replace ''mail_user'' ''_'' ''-'' = ''mail-user''"
  "replace ''mail_type'' ''_'' ''-'' = ''mail-type''"
  by (simp_all add: replace_def)

lemma header_str_split:
  assumes "job_directory h \<noteq> []"
  shows "header_str h = Inr (mandatory_header h (stripped_directory h)
           @ optionals_loop h optionals [] @ flags_loop h flags [])"
  using assms
    flags_loop_acc [of h flags "optionals_loop h optionals (mandatory_header h (stripped_directory h))"]
    optionals_loop_acc [of h optionals "mandatory_header h (stripped_directory h)"]
  by (simp add: header_str_def Let_def stripped_directory_def)

lemma header_lines:
  assumes fields: "list_all single_line (text_fields h)" and dir: "job_directory h \<noteq> []"
  shows "header_has_line h line \<longleftrightarrow>
           line \<in> set (mandatory_lines h (stripped_directory h)) \<or>
           (\<exists>a\<in>set optionals. getattr h a \<noteq> field_default a \<and>
              (line = ''#'' \<or> line = directive_line a (getattr h a))) \<or>
           (\<exists>a\<in>set flags. truthy (getattr h a) \<and> (line = ''#'' \<or> line = flag_line a)) \<or>
           line = []"
proof -
  have f: "single_line (bash_path h)" "single_line (account h)" "single_line (partition h)"
    "single_line (qos h)" "single_line (job_name h)" "single_line (job_directory h)"
    "single_line (output h)" "single_line (error h)" "single_line (distribution h)"
    "single_line (hint h)" "single_line (mail_user h)" "single_line (mail_type h)"
    using fields by (simp_all add: text_fields_def)
  have jd: "single_line (stripped_directory h)"
    using f(6) by (simp add: stripped_directory_def single_line_butlast)
  have opts: "\<forall>a\<in>set optionals. single_line (directive_line a (getattr h a))"
    using f by (simp add: optionals_def directive_line_def directive_names)
  have flgs: "\<forall>a\<in>set flags. single_line (flag_line a)"
    by (simp add: flags_def flag_line_def)
  have "split_lines (mandatory_header h (stripped_directory h)
           @ optionals_loop h optionals [] @ flags_loop h flags [])
      = mandatory_lines h (stripped_directory h)
        @ concat (map (\<lambda>a. [''#'', directive_line a (getattr h a)])
            (filter (\<lambda>a. getattr h a \<noteq> field_default a) optionals))
        @ concat (map (\<lambda>a. [''#'', flag_line a])
            (filter (\<lambda>a. truthy (getattr h a)) flags))
        @ [[]]"
    unfolding split_lines_def
    using mandatory_header_lines [OF f(1-5) jd f(7,8)]
      optionals_loop_lines [OF opts, where rest = "flags_loop h flags []"]
      flags_loop_lines [OF flgs, where rest = "[]"]
    by simp
  then show ?thesis
    unfolding header_has_line_def header_str_split [OF dir]
    by auto
qed

section \<open>Optional directives\<close>

text \<open>
  Claim C5 as stated fails: a header whose \<open>bash_path\<close> is \<^verbatim>\<open>SBATCH --hint=\<close> and
  whose \<open>hint\<close> is the default empty string renders \<^verbatim>\<open>#SBATCH --hint=\<close> as its first
  line, so the directive line for \<open>hint\<close> is in the header although the value equals
  the default.
\<close>

lemma spoof_header_str:
  "header_str spoof_header = Inr (''#SBATCH --hint='' @ CHR 0x0A # ''#\<newline>#SBATCH --account=e781\<newline>#SBATCH --partition=standard\<newline>#SBATCH --qos=standard\<newline>#\<newline>#SBATCH --job-name=test_job\<newline>#SBATCH --output=results/slurm-%x-%j.out\<newline>#SBATCH --error=results/slurm-%x-%j.out\<newline>#\<newline>#SBATCH --nodes=1\<newline>#SBATCH --ntasks-per-node=2\<newline>#\<newline>#SBATCH --time=00:05:00\<newline>#\<newline>#SBATCH --distribution=block:block\<newline>#\<newline>#SBATCH --requeue\<newline>'')"
  by (simp add: header_str_def spoof_header_def main_header_def mandatory_header_def
      optionals_def flags_def Let_def replace_def str_int_def str_nat.simps digit_char_def
      format_02_def time_list_def)

theorem optional_directive_spoofed:
  "header_has_line spoof_header (directive_line Hint (getattr spoof_header Hint)) \<and>
   getattr spoof_header Hint = field_default Hint"
proof -
  have v: "hint spoof_header = []"
    by (simp add: spoof_header_def)
  have l: "directive_line Hint (PyStr []) = ''#SBATCH --hint=''"
    by (simp add: directive_line_def replace_def)
  have "single_line ''#SBATCH --hint=''" by simp
  then have "lines_from [] (''#SBATCH --hint='' @ CHR 0x0A # t) = ''#SBATCH --hint='' # lines_from [] t" for t
    by (rule lines_from_line)
  then have "header_has_line spoof_header ''#SBATCH --hint=''"
    unfolding header_has_line_def spoof_header_str split_lines_def by simp
  then show ?thesis by (simp add: v l)
qed

text \<open>
  Claim C5, amended. For a header that renders (non-empty \<open>job_directory\<close>), whose string
  fields contain no newline and whose first line \<^verbatim>\<open>#<bash_path>\<close> is not itself the
  directive line in question: for each optional directive \<open>a\<close> of
  \<open>switches, distribution, hint, mail_user, mail_type\<close>, the rendered header contains the
  line \<^verbatim>\<open>#SBATCH --<name with hyphens>=<value>\<close> if and only if the configured value
  differs from the field's declared default.
\<close>

theorem optional_directive_line:
  assumes "list_all single_line (text_fields h)"
      and "job_directory h \<noteq> []"
      and "a \<in> set optionals"
      and "''#'' @ bash_path h \<noteq> directive_line a (getattr h a)"
  shows "header_has_line h (directive_line a (getattr h a))
           \<longleftrightarrow> getattr h a \<noteq> field_default a"
proof -
  from assms(3) consider "a = Switches" | "a = Distribution" | "a = Hint"
    | "a = Mail_user" | "a = Mail_type"
    by (auto simp add: optionals_def)
  then show ?thesis
  proof cases
    case 1
    with assms(4) show ?thesis
      unfolding header_lines [OF assms(1,2)]
      by (simp add: mandatory_lines_def optionals_def flags_def directive_line_def
          flag_line_def directive_names)
  next
    case 2
    with assms(4) show ?thesis
      unfolding header_lines [OF assms(1,2)]
      by (simp add: mandatory_lines_def optionals_def flags_def directive_line_def
          flag_line_def directive_names)
  next
    case 3
    with assms(4) show ?thesis
      unfolding header_lines [OF assms(1,2)]
      by (simp add: mandatory_lines_def optionals_def flags_def directive_line_def
          flag_line_def directive_names)
  next
    case 4
    with assms(4) show ?thesis
      unfolding header_lines [OF assms(1,2)]
      by (simp add: mandatory_lines_def optionals_def flags_def directive_line_def
          flag_line_def directive_names)
  next
    case 5
    with assms(4) show ?thesis
      unfolding header_lines [OF assms(1,2)]
      by (simp add: mandatory_lines_def optionals_def flags_def directive_line_def
          flag_line_def directive_names)
  qed
qed

theorem optional_directive_line_witness:
  "header_has_line main_header ''#SBATCH --hint=nomultithread'' \<and>
   \<not> header_has_line main_header ''#SBATCH --mail-user=''"
  using optional_directive_line [of main_header Hint]
    optional_directive_line [of main_header Mail_user]
  by (simp add: main_header_def text_fields_def optionals_def directive_line_def
      directive_names)

section \<open>Flags\<close>

text \<open>
  Claim C7 as stated fails: a header whose \<open>bash_path\<close> is \<^verbatim>\<open>SBATCH --exclusive\<close> and
  whose \<open>exclusive\<close> flag is false renders \<^verbatim>\<open>#SBATCH --exclusive\<close> as its first line.
\<close>

lemma spoof_flag_header_str:
  "header_str spoof_flag_header = Inr (''#SBATCH --exclusive'' @ CHR 0x0A # ''#\<newline>#SBATCH --account=e781\<newline>#SBATCH --partition=standard\<newline>#SBATCH --qos=standard\<newline>#\<newline>#SBATCH --job-name=test_job\<newline>#SBATCH --output=results/slurm-%x-%j.out\<newline>#SBATCH --error=results/slurm-%x-%j.out\<newline>#\<newline>#SBATCH --nodes=1\<newline>#SBATCH --ntasks-per-node=2\<newline>#\<newline>#SBATCH --time=00:05:00\<newline>#\<newline>#SBATCH --distribution=block:block\<newline>#\<newline>#SBATCH --hint=nomultithread\<newline>#\<newline>#SBATCH --requeue\<newline>'')"
  by (simp add: header_str_def spoof_flag_header_def main_header_def mandatory_header_def
      optionals_def flags_def Let_def replace_def str_int_def str_nat.simps digit_char_def
      format_02_def time_list_def)

theorem flag_directive_spoofed:
  "header_has_line spoof_flag_header ''#SBATCH --exclusive'' \<and> \<not> exclusive spoof_flag_header"
proof -
  have "single_line ''#SBATCH --exclusive''" by simp
  then have "lines_from [] (''#SBATCH --exclusive'' @ CHR 0x0A # t)
      = ''#SBATCH --exclusive'' # lines_from [] t" for t
    by (rule lines_from_line)
  then have "header_has_line spoof_flag_header ''#SBATCH --exclusive''"
    unfolding header_has_line_def spoof_flag_header_str split_lines_def by simp
  then show ?thesis by (simp add: spoof_flag_header_def)
qed

text \<open>
  Claim C7, amended. For a header that renders, whose string fields contain no newline and
  whose \<open>bash_path\<close> is neither \<^verbatim>\<open>SBATCH --exclusive\<close> nor \<^verbatim>\<open>SBATCH --requeue\<close>: the
  rendered header contains the bare line \<^verbatim>\<open>#SBATCH --exclusive\<close> if and only if
  \<open>exclusive\<close> is true, and the bare line \<^verbatim>\<open>#SBATCH --requeue\<close> if and only if
  \<open>requeue\<close> is true.
\<close>

theorem flag_directive_line:
  assumes "list_all single_line (text_fields h)"
      and "job_directory h \<noteq> []"
      and "bash_path h \<noteq> ''SBATCH --exclusive''"
      and "bash_path h \<noteq> ''SBATCH --requeue''"
  shows "(header_has_line h ''#SBATCH --exclusive'' \<longleftrightarrow> exclusive h) \<and>
         (header_has_line h ''#SBATCH --requeue'' \<longleftrightarrow> requeue h)"
  using assms(3,4)
  unfolding header_lines [OF assms(1,2)]
  by (simp add: mandatory_lines_def optionals_def flags_def directive_line_def
      flag_line_def directive_names)

theorem flag_directive_line_witness:
  "header_has_line main_header ''#SBATCH --exclusive'' \<and>
   \<not> header_has_line (main_header\<lparr>requeue := False\<rparr>) ''#SBATCH --requeue''"
  using flag_directive_line [of main_header]
    flag_directive_line [of "main_header\<lparr>requeue := False\<rparr>"]
  by (simp add: main_header_def text_fields_def)

end
